theory Spec2Isabelle
  imports Complex_Main
begin

section \<open>Numeric values\<close>

text \<open>
  The source computes with IEEE-754 doubles. A double is modelled as a value of \<open>fl\<close>: a
  finite number (an exact real: rounding and overflow are abstracted away, and \<open>-0.0\<close> is
  identified with \<open>0.0\<close>), one of the two infinities, or not-a-number. The arithmetic below
  follows IEEE-754 on the special values, so a division by zero, the square root of a negative
  number and every operation on an infinity or a NaN give what the hardware gives.
\<close>

datatype fl = Fin real | PInf | NInf | NaN

fun fadd :: "fl \<Rightarrow> fl \<Rightarrow> fl" where
  "fadd (Fin a) (Fin b) = Fin (a + b)"
| "fadd (Fin a) PInf = PInf"
| "fadd (Fin a) NInf = NInf"
| "fadd PInf (Fin b) = PInf"
| "fadd NInf (Fin b) = NInf"
| "fadd PInf PInf = PInf"
| "fadd NInf NInf = NInf"
| "fadd PInf NInf = NaN"
| "fadd NInf PInf = NaN"
| "fadd NaN y = NaN"
| "fadd x NaN = NaN"

fun fmul :: "fl \<Rightarrow> fl \<Rightarrow> fl" where
  "fmul (Fin a) (Fin b) = Fin (a * b)"
| "fmul (Fin a) PInf = (if 0 < a then PInf else if a < 0 then NInf else NaN)"
| "fmul (Fin a) NInf = (if 0 < a then NInf else if a < 0 then PInf else NaN)"
| "fmul PInf (Fin b) = (if 0 < b then PInf else if b < 0 then NInf else NaN)"
| "fmul NInf (Fin b) = (if 0 < b then NInf else if b < 0 then PInf else NaN)"
| "fmul PInf PInf = PInf"
| "fmul NInf NInf = PInf"
| "fmul PInf NInf = NInf"
| "fmul NInf PInf = NInf"
| "fmul NaN y = NaN"
| "fmul x NaN = NaN"

fun fdiv :: "fl \<Rightarrow> fl \<Rightarrow> fl" where
  "fdiv (Fin a) (Fin b) =
     (if b = 0 then (if 0 < a then PInf else if a < 0 then NInf else NaN) else Fin (a / b))"
| "fdiv (Fin a) PInf = Fin 0"
| "fdiv (Fin a) NInf = Fin 0"
| "fdiv PInf (Fin b) = (if 0 \<le> b then PInf else NInf)"
| "fdiv NInf (Fin b) = (if 0 \<le> b then NInf else PInf)"
| "fdiv PInf PInf = NaN"
| "fdiv NInf NInf = NaN"
| "fdiv PInf NInf = NaN"
| "fdiv NInf PInf = NaN"
| "fdiv NaN y = NaN"
| "fdiv x NaN = NaN"

fun fsqrt :: "fl \<Rightarrow> fl" where
  "fsqrt (Fin a) = (if a < 0 then NaN else Fin (sqrt a))"
| "fsqrt PInf = PInf"
| "fsqrt NInf = NaN"
| "fsqrt NaN = NaN"

definition odd_integer :: "real \<Rightarrow> bool" where
  "odd_integer b = (b \<in> \<int> \<and> odd \<lfloor>b\<rfloor>)"

text \<open>
  \<open>fpow\<close> is the C library's \<open>pow\<close>, which both Python's and numpy's \<open>**\<close> call on doubles.
  HOL's \<open>powr\<close> is used on a positive base only: on a negative base it silently computes with
  the absolute value, where \<open>pow\<close> gives NaN for a fractional exponent and a signed result for
  an integral one.
\<close>

fun fpow :: "fl \<Rightarrow> fl \<Rightarrow> fl" where
  "fpow x (Fin b) =
     (if b = 0 then Fin 1
      else (case x of
          Fin a \<Rightarrow>
            if 0 < a then Fin (a powr b)
            else if a = 0 then (if 0 < b then Fin 0 else PInf)
            else if b \<in> \<int> then Fin (if odd_integer b then - ((- a) powr b) else (- a) powr b)
            else NaN
        | PInf \<Rightarrow> if 0 < b then PInf else Fin 0
        | NInf \<Rightarrow> if 0 < b then (if odd_integer b then NInf else PInf) else Fin 0
        | NaN \<Rightarrow> NaN))"
| "fpow x PInf =
     (case x of
        Fin a \<Rightarrow> if \<bar>a\<bar> < 1 then Fin 0 else if \<bar>a\<bar> = 1 then Fin 1 else PInf
      | PInf \<Rightarrow> PInf
      | NInf \<Rightarrow> PInf
      | NaN \<Rightarrow> NaN)"
| "fpow x NInf =
     (case x of
        Fin a \<Rightarrow> if \<bar>a\<bar> < 1 then PInf else if \<bar>a\<bar> = 1 then Fin 1 else Fin 0
      | PInf \<Rightarrow> Fin 0
      | NInf \<Rightarrow> Fin 0
      | NaN \<Rightarrow> NaN)"
| "fpow x NaN = (if x = Fin 1 then Fin 1 else NaN)"

definition finite_fl :: "fl \<Rightarrow> bool" where
  "finite_fl x = (case x of Fin a \<Rightarrow> True | PInf \<Rightarrow> False | NInf \<Rightarrow> False | NaN \<Rightarrow> False)"

section \<open>Python and numpy values\<close>

text \<open>
  An argument of the function is a Python number (\<open>Scalar Python\<close>: an \<open>int\<close> or a \<open>float\<close>),
  a numpy scalar (\<open>Scalar Numpy\<close>: \<open>np.float64\<close>) or a one-dimensional numpy array. The two
  kinds of scalar hold the same numbers and differ in what an operator does at a degenerate
  operand: Python's \<open>/\<close> raises \<open>ZeroDivisionError\<close> on a zero divisor, numpy's returns an
  infinity or a NaN (and warns).
\<close>

datatype lib = Python | Numpy

datatype val = Scalar lib fl | Arr "fl list"

datatype error =
    ValueError string
  | KeyError string
  | IndexError
  | TypeError
  | ZeroDivisionError
  | ComplexResult

text \<open>A value that numpy made: a numpy scalar or an array.\<close>

definition numpy_val :: "val \<Rightarrow> bool" where
  "numpy_val v = (case v of Scalar k x \<Rightarrow> k = Numpy | Arr xs \<Rightarrow> True)"

definition ebind :: "error + 'a \<Rightarrow> ('a \<Rightarrow> error + 'b) \<Rightarrow> error + 'b" where
  "ebind m f = (case m of Inl e \<Rightarrow> Inl e | Inr x \<Rightarrow> f x)"

fun both :: "lib \<Rightarrow> lib \<Rightarrow> lib" where
  "both Python Python = Python"
| "both Python Numpy = Numpy"
| "both Numpy k = Numpy"

text \<open>
  A binary operation on two values. Two Python numbers give a Python number; as soon as one
  operand is a numpy value the result is one, computed element by element, and two arrays
  are broadcast: equal lengths, or one of them of length one.
\<close>

fun binop :: "(fl \<Rightarrow> fl \<Rightarrow> fl) \<Rightarrow> val \<Rightarrow> val \<Rightarrow> error + val" where
  "binop f (Scalar k x) (Scalar k' y) = Inr (Scalar (both k k') (f x y))"
| "binop f (Scalar k x) (Arr ys) = Inr (Arr (map (f x) ys))"
| "binop f (Arr xs) (Scalar k y) = Inr (Arr (map (\<lambda>x. f x y) xs))"
| "binop f (Arr xs) (Arr ys) =
     (if length xs = length ys then Inr (Arr (map2 f xs ys))
      else if length xs = 1 then Inr (Arr (map (f (hd xs)) ys))
      else if length ys = 1 then Inr (Arr (map (\<lambda>x. f x (hd ys)) xs))
      else Inl (ValueError ''operands could not be broadcast together''))"

text \<open>A numpy universal function of one argument (\<open>np.sqrt\<close>): the result is a numpy value.\<close>

fun ufunc :: "(fl \<Rightarrow> fl) \<Rightarrow> val \<Rightarrow> val" where
  "ufunc f (Scalar k x) = Scalar Numpy (f x)"
| "ufunc f (Arr xs) = Arr (map f xs)"

definition np_sqrt :: "val \<Rightarrow> val" where
  "np_sqrt v = ufunc fsqrt v"

definition py_add :: "val \<Rightarrow> val \<Rightarrow> error + val" where
  "py_add a b = binop fadd a b"

definition py_mul :: "val \<Rightarrow> val \<Rightarrow> error + val" where
  "py_mul a b = binop fmul a b"

text \<open>Python's \<open>/\<close> on two Python numbers raises on a zero divisor; numpy's does not.\<close>

fun py_truediv :: "val \<Rightarrow> val \<Rightarrow> error + val" where
  "py_truediv (Scalar Python x) (Scalar Python y) =
     (if y = Fin 0 then Inl ZeroDivisionError else Inr (Scalar Python (fdiv x y)))"
| "py_truediv a b = binop fdiv a b"

text \<open>
  Python's \<open>**\<close> on two Python numbers raises \<open>ZeroDivisionError\<close> for zero to a negative
  power and leaves the real numbers for a negative base to a fractional power (the result is
  a \<open>complex\<close>, which this model has no value for: \<open>ComplexResult\<close>). numpy's gives an
  infinity and a NaN there.
\<close>

fun py_pow :: "val \<Rightarrow> val \<Rightarrow> error + val" where
  "py_pow (Scalar Python x) (Scalar Python y) =
     (case (x, y) of
        (Fin a, Fin b) \<Rightarrow>
          if a = 0 \<and> b < 0 then Inl ZeroDivisionError
          else if a < 0 \<and> b \<notin> \<int> then Inl ComplexResult
          else Inr (Scalar Python (fpow x y))
      | _ \<Rightarrow> Inr (Scalar Python (fpow x y)))"
| "py_pow a b = binop fpow a b"

text \<open>Indexing a tuple, a list or an array with a non-negative constant; a dictionary lookup.\<close>

definition getitem :: "val list \<Rightarrow> nat \<Rightarrow> error + val" where
  "getitem xs i = (if i < length xs then Inr (xs ! i) else Inl IndexError)"

definition dict_getitem :: "(string \<rightharpoonup> 'v) \<Rightarrow> string \<Rightarrow> error + 'v" where
  "dict_getitem d k = (case d k of None \<Rightarrow> Inl (KeyError k) | Some v \<Rightarrow> Inr v)"

section \<open>The external atmosphere library\<close>

text \<open>
  The three functions of \<open>pvlib.atmosphere\<close> that the source calls are not part of the
  repository. They are parameters of the model: one numeric kernel each, applied the way
  pvlib applies it. \<open>get_relative_airmass\<close> is built from numpy universal functions, so its
  result is a numpy value whatever the argument is; \<open>alt2pres\<close> is plain arithmetic and keeps
  the kind of its argument; \<open>get_absolute_airmass\<close> combines its two arguments element by
  element.
\<close>

record atmosphere =
  relative_airmass :: "fl \<Rightarrow> fl"
  pressure_at :: "fl \<Rightarrow> fl"
  absolute_airmass :: "fl \<Rightarrow> fl \<Rightarrow> fl"

definition get_relative_airmass :: "atmosphere \<Rightarrow> val \<Rightarrow> val" where
  "get_relative_airmass L zenith = ufunc (relative_airmass L) zenith"

fun alt2pres :: "atmosphere \<Rightarrow> val \<Rightarrow> val" where
  "alt2pres L (Scalar k h) = Scalar k (pressure_at L h)"
| "alt2pres L (Arr hs) = Arr (map (pressure_at L) hs)"

definition get_absolute_airmass :: "atmosphere \<Rightarrow> val \<Rightarrow> val \<Rightarrow> error + val" where
  "get_absolute_airmass L airmass_relative pressure =
     binop (absolute_airmass L) airmass_relative pressure"

section \<open>The spectral mismatch factor\<close>

definition pyf :: "real \<Rightarrow> val" where
  "pyf r = Scalar Python (Fin r)"

text \<open>The dictionary \<open>_coefficients\<close> of the source, filled key by key as the source does.\<close>

definition coefficients_table :: "string \<rightharpoonup> val list" where
  "coefficients_table =
     [''cdte'' \<mapsto> [pyf (- 0.0009), pyf 46.80, pyf 49.20, pyf (- 0.87), pyf 0.00041, pyf 0.053],
      ''monosi'' \<mapsto> [pyf 0.0027, pyf 10.34, pyf 9.48, pyf 0.307, pyf 0.00077, pyf 0.006],
      ''cigs'' \<mapsto> [pyf 0.0017, pyf 2.33, pyf 1.30, pyf 0.11, pyf 0.00098, pyf (- 0.0177)],
      ''asi'' \<mapsto> [pyf 0.0024, pyf 7.32, pyf 7.09, pyf (- 0.72), pyf (- 0.0013), pyf 0.089]]"

text \<open>The dictionary \<open>c\<close> of the source: the coefficients of the albedo correction.\<close>

definition c_table :: "string \<rightharpoonup> val list" where
  "c_table =
     [''asi'' \<mapsto> [pyf 0.0056, pyf (- 0.020), pyf 1.014],
      ''cigs'' \<mapsto> [pyf (- 0.0009), pyf (- 0.0003), pyf 1],
      ''cdte'' \<mapsto> [pyf 0.0021, pyf (- 0.01), pyf 1.01],
      ''monosi'' \<mapsto> [pyf 0, pyf (- 0.003), pyf 1.0]]"

text \<open>
  Lines 67 to 70: \<open>Ram = am90 / airmass_absolute\<close>, with \<open>am90\<close> the absolute airmass that
  pvlib computes from the relative airmass at \<open>aoi\<close> and the pressure at \<open>altitude\<close>.
\<close>

definition airmass_ratio :: "atmosphere \<Rightarrow> val \<Rightarrow> val \<Rightarrow> val \<Rightarrow> error + val" where
  "airmass_ratio L airmass_absolute aoi altitude =
     (let am_aoi = get_relative_airmass L aoi;
          pressure = alt2pres L altitude
      in ebind (get_absolute_airmass L am_aoi pressure) (\<lambda>am90.
         py_truediv am90 airmass_absolute))"

text \<open>
  Line 98, in Python's order of evaluation (operands left to right, so the first index out
  of range or the first operator that raises decides the error):
  \<open>smm = coeff[0]*Ram + coeff[1]/(coeff[2]+Ram**coeff[3]) + coeff[4]/aod500
        + coeff[5]*np.sqrt(precipitable_water)\<close>.
\<close>

definition smm :: "val list \<Rightarrow> val \<Rightarrow> val \<Rightarrow> val \<Rightarrow> error + val" where
  "smm coeff Ram aod500 precipitable_water =
     ebind (getitem coeff 0) (\<lambda>c0.
     ebind (py_mul c0 Ram) (\<lambda>t1.
     ebind (getitem coeff 1) (\<lambda>c1.
     ebind (getitem coeff 2) (\<lambda>c2.
     ebind (getitem coeff 3) (\<lambda>c3.
     ebind (py_pow Ram c3) (\<lambda>p.
     ebind (py_add c2 p) (\<lambda>d.
     ebind (py_truediv c1 d) (\<lambda>t2.
     ebind (py_add t1 t2) (\<lambda>s1.
     ebind (getitem coeff 4) (\<lambda>c4.
     ebind (py_truediv c4 aod500) (\<lambda>t3.
     ebind (py_add s1 t3) (\<lambda>s2.
     ebind (getitem coeff 5) (\<lambda>c5.
     ebind (py_mul c5 (np_sqrt precipitable_water)) (\<lambda>t4.
     py_add s2 t4))))))))))))))"

text \<open>
  Line 101, the ground albedo correction:
  \<open>g = c_albedo[0]*(albedo/0.2)**2 + c_albedo[1]*(albedo/0.2) + c_albedo[2]\<close>.
\<close>

definition albedo_correction :: "val list \<Rightarrow> val \<Rightarrow> error + val" where
  "albedo_correction c_albedo albedo =
     ebind (getitem c_albedo 0) (\<lambda>b0.
     ebind (py_truediv albedo (pyf 0.2)) (\<lambda>r.
     ebind (py_pow r (pyf 2)) (\<lambda>r2.
     ebind (py_mul b0 r2) (\<lambda>u1.
     ebind (getitem c_albedo 1) (\<lambda>b1.
     ebind (py_truediv albedo (pyf 0.2)) (\<lambda>r'.
     ebind (py_mul b1 r') (\<lambda>u2.
     ebind (py_add u1 u2) (\<lambda>s.
     ebind (getitem c_albedo 2) (\<lambda>b2.
     py_add s b2)))))))))"

text \<open>
  The function of the source. \<open>module_type\<close> and \<open>coefficients\<close> are \<open>None\<close> or a value;
  \<open>albedo\<close> is passed explicitly (the source's default is 0.2). Indexing \<open>None\<close> would raise
  \<open>TypeError\<close>; the two checks at the top make that branch unreachable.
\<close>

definition spectral_factor_polo ::
  "atmosphere \<Rightarrow> val \<Rightarrow> val \<Rightarrow> val \<Rightarrow> val \<Rightarrow> val \<Rightarrow> string option \<Rightarrow> val list option \<Rightarrow> val
     \<Rightarrow> error + val" where
  "spectral_factor_polo L precipitable_water airmass_absolute aod500 aoi altitude
       module_type coefficients albedo =
     (if module_type = None \<and> coefficients = None then
        Inl (ValueError ''Must provide either `module_type` or `coefficients`'')
      else if module_type \<noteq> None \<and> coefficients \<noteq> None then
        Inl (ValueError ''Only one of `module_type` and `coefficients` should be provided'')
      else
        ebind (airmass_ratio L airmass_absolute aoi altitude) (\<lambda>Ram.
        ebind (case module_type of
                 Some t \<Rightarrow>
                   ebind (dict_getitem coefficients_table t) (\<lambda>coeff.
                   ebind (dict_getitem c_table t) (\<lambda>c_albedo.
                   Inr (coeff, c_albedo, albedo)))
               | None \<Rightarrow>
                   (case coefficients of
                      Some coeff \<Rightarrow> Inr (coeff, [pyf 0.0, pyf 0.0, pyf 1.0], pyf 0.2)
                    | None \<Rightarrow> Inl TypeError))
          (\<lambda>(coeff, c_albedo, albedo').
        ebind (smm coeff Ram aod500 precipitable_water) (\<lambda>s.
        ebind (albedo_correction c_albedo albedo') (\<lambda>g.
        py_mul g s)))))"

section \<open>A sample atmosphere\<close>

text \<open>
  Concrete kernels for evaluating the model at concrete inputs: a relative airmass that grows
  with the angle, a pressure that falls with the altitude from 101325 Pa at sea level, and
  pvlib's absolute airmass \<open>airmass_relative * pressure / 101325\<close>.
\<close>

definition sample_atmosphere :: atmosphere where
  "sample_atmosphere =
     \<lparr>relative_airmass = (\<lambda>z. fadd (Fin 1) (fdiv z (Fin 90))),
      pressure_at = (\<lambda>h. fadd (Fin 101325) (fmul (Fin (- 12)) h)),
      absolute_airmass = (\<lambda>a p. fdiv (fmul a p) (Fin 101325))\<rparr>"

section \<open>Evaluation lemmas\<close>

lemma ebind_simps [simp]:
  "ebind (Inl e) f = Inl e"
  "ebind (Inr x) f = f x"
  by (simp_all add: ebind_def)

lemma both_Numpy [simp]: "both k Numpy = Numpy"
  by (cases k) simp_all

lemma dom_coefficients_table:
  "dom coefficients_table = {''cdte'', ''monosi'', ''cigs'', ''asi''}"
  by (auto simp: coefficients_table_def split: if_splits)

lemma dom_c_table: "dom c_table = {''cdte'', ''monosi'', ''cigs'', ''asi''}"
  by (auto simp: c_table_def split: if_splits)


text \<open>Operators on scalars: only \<open>/\<close> on two Python numbers can raise.\<close>

lemma mul_numpy [simp]:
  "py_mul (Scalar k x) (Scalar Numpy y) = Inr (Scalar Numpy (fmul x y))"
  by (simp add: py_mul_def)

lemma add_numpy [simp]:
  "py_add (Scalar k x) (Scalar Numpy y) = Inr (Scalar Numpy (fadd x y))"
  "py_add (Scalar Numpy x) (Scalar k y) = Inr (Scalar Numpy (fadd x y))"
  by (simp_all add: py_add_def)

lemma truediv_numpy [simp]:
  "py_truediv (Scalar k x) (Scalar Numpy y) = Inr (Scalar Numpy (fdiv x y))"
  by (cases k) simp_all




lemma fmul_one [simp]: "fmul (Fin 1) x = x"
  by (cases x) simp_all

lemma py_mul_one [simp]: "py_mul (Scalar Python (Fin 1)) s = Inr s"
proof (cases s)
  case (Scalar k x)
  then show ?thesis by (cases k) (simp_all add: py_mul_def)
next
  case (Arr xs)
  then show ?thesis by (simp add: py_mul_def map_idI)
qed

text \<open>Lines 94 and 95: the neutral triple at the forced albedo gives the factor one.\<close>

lemma neutral_correction:
  "albedo_correction [pyf 0.0, pyf 0.0, pyf 1.0] (pyf 0.2) = Inr (pyf 1)"
  by (simp add: albedo_correction_def getitem_def py_mul_def py_add_def pyf_def)

text \<open>The two paths through the function, once the checks at the top have passed.\<close>

lemma coefficients_path:
  "spectral_factor_polo L pw am aod aoi alt None (Some cs) alb =
     ebind (airmass_ratio L am aoi alt) (\<lambda>Ram. smm cs Ram aod pw)"
  using neutral_correction
  by (simp add: spectral_factor_polo_def ebind_def pyf_def split: sum.splits)

lemma module_path:
  "spectral_factor_polo L pw am aod aoi alt (Some t) None alb =
     ebind (airmass_ratio L am aoi alt) (\<lambda>Ram.
     ebind (dict_getitem coefficients_table t) (\<lambda>coeff.
     ebind (dict_getitem c_table t) (\<lambda>c_albedo.
     ebind (smm coeff Ram aod pw) (\<lambda>s.
     ebind (albedo_correction c_albedo alb) (\<lambda>g.
     py_mul g s)))))"
  by (simp add: spectral_factor_polo_def ebind_def split: sum.splits)



text \<open>Infinities and NaN propagate through the arithmetic.\<close>

lemma finite_fl_simps [simp]:
  "finite_fl (Fin a)" "\<not> finite_fl PInf" "\<not> finite_fl NInf" "\<not> finite_fl NaN"
  by (simp_all add: finite_fl_def)




lemma fmul_NaN [simp]: "fmul x NaN = NaN"
  by (cases x) simp_all

lemma fadd_NaN [simp]: "fadd x NaN = NaN"
  by (cases x) simp_all





















section \<open>The returned modifier\<close>



section \<open>The airmass ratio\<close>



section \<open>Explicit coefficients\<close>

text \<open>
  C3: with \<open>module_type\<close> absent and \<open>coefficients\<close> supplied, two calls that differ in
  \<open>albedo\<close> only return the same: the albedo is replaced by 0.2 and the correction
  coefficients are \<open>(0, 0, 1)\<close>, so the correction factor is 1 and the call returns the
  \<open>smm\<close> term alone (or raises what computing it raises).
\<close>

theorem albedo_ignored_with_coefficients:
  "spectral_factor_polo L pw am aod aoi alt None (Some cs) alb =
     spectral_factor_polo L pw am aod aoi alt None (Some cs) alb' \<and>
   albedo_correction [pyf 0.0, pyf 0.0, pyf 1.0] (pyf 0.2) = Inr (pyf 1) \<and>
   spectral_factor_polo L pw am aod aoi alt None (Some cs) alb =
     ebind (airmass_ratio L am aoi alt) (\<lambda>Ram. smm cs Ram aod pw)"
  using neutral_correction by (simp add: coefficients_path)

text \<open>
  C4: for each of the four module types, the call with that \<open>module_type\<close> returns the
  albedo correction of that type times what the call with \<open>coefficients\<close> set to the
  type's entry of \<open>_coefficients\<close> returns (whatever albedo the latter is given); both
  evaluate the same \<open>smm\<close> term, and raise the same error when it raises.
\<close>

theorem module_type_is_correction_times_coefficients:
  assumes "t \<in> dom coefficients_table"
  shows "\<exists>B. c_table t = Some B \<and>
    spectral_factor_polo L pw am aod aoi alt (Some t) None alb =
      ebind (spectral_factor_polo L pw am aod aoi alt None (coefficients_table t) alb') (\<lambda>s.
      ebind (albedo_correction B alb) (\<lambda>g. py_mul g s))"
proof -
  from assms obtain A where A: "coefficients_table t = Some A" by auto
  from assms have "t \<in> dom c_table" by (simp add: dom_coefficients_table dom_c_table)
  then obtain B where B: "c_table t = Some B" by auto
  show ?thesis
    by (simp add: A B module_path coefficients_path dict_getitem_def ebind_def
          split: sum.splits)
qed

theorem module_type_is_correction_times_coefficients_witness:
  "''monosi'' \<in> dom coefficients_table \<and>
   spectral_factor_polo sample_atmosphere (pyf 1.42) (pyf 1.5) (pyf 0.2) (pyf 30) (pyf 0)
     (Some ''monosi'') None (pyf 0.3) =
   ebind (spectral_factor_polo sample_atmosphere (pyf 1.42) (pyf 1.5) (pyf 0.2) (pyf 30) (pyf 0)
            None (coefficients_table ''monosi'') (pyf 0.9)) (\<lambda>s.
   ebind (albedo_correction [pyf 0, pyf (- 0.003), pyf 1.0] (pyf 0.3)) (\<lambda>g. py_mul g s))"
  using module_type_is_correction_times_coefficients [of "''monosi''" sample_atmosphere
      "pyf 1.42" "pyf 1.5" "pyf 0.2" "pyf 30" "pyf 0" "pyf 0.3" "pyf 0.9"]
  by (auto simp: dom_coefficients_table c_table_def)

section \<open>Errors\<close>

text \<open>
  C6: whatever the other arguments are, a call with both \<open>module_type\<close> and \<open>coefficients\<close>
  raises the \<open>ValueError\<close> of line 64, and a call with neither raises that of line 62. The
  checks come first: the result is this error also where the airmass computation would have
  raised (arrays that do not broadcast) or the lookup would have (an unknown module type).
\<close>

theorem both_or_neither_is_invalid:
  "spectral_factor_polo L pw am aod aoi alt (Some t) (Some cs) alb =
     Inl (ValueError ''Only one of `module_type` and `coefficients` should be provided'') \<and>
   spectral_factor_polo L pw am aod aoi alt None None alb =
     Inl (ValueError ''Must provide either `module_type` or `coefficients`'')"
  by (simp add: spectral_factor_polo_def)



section \<open>The albedo correction\<close>




section \<open>The entries of the coefficients that are read\<close>



section \<open>Degenerate numeric inputs\<close>




section \<open>Array arguments\<close>



section \<open>The errors of a call\<close>

lemma binop_errors: "binop f a b = Inl e \<Longrightarrow> e = ValueError ''operands could not be broadcast together''"
  by (cases a; cases b) (auto split: if_splits)

lemma binop_numpy: "numpy_val a \<or> numpy_val b \<Longrightarrow> binop f a b = Inr v \<Longrightarrow> numpy_val v"
  by (cases a; cases b) (auto simp: numpy_val_def split: if_splits)

lemma py_add_errors: "py_add a b = Inl e \<Longrightarrow> e = ValueError ''operands could not be broadcast together''"
  by (simp add: py_add_def binop_errors)

lemma py_mul_errors: "py_mul a b = Inl e \<Longrightarrow> e = ValueError ''operands could not be broadcast together''"
  by (simp add: py_mul_def binop_errors)

lemma py_truediv_errors:
  "py_truediv a b = Inl e \<Longrightarrow>
     e = ValueError ''operands could not be broadcast together'' \<or> e = ZeroDivisionError"
  by (cases "(a, b)" rule: py_truediv.cases) (auto split: if_splits dest: binop_errors)

lemma py_truediv_is_binop: "numpy_val a \<Longrightarrow> py_truediv a b = binop fdiv a b"
  by (cases a) (auto simp: numpy_val_def)

lemma py_pow_is_binop: "numpy_val a \<Longrightarrow> py_pow a b = binop fpow a b"
  by (cases a) (auto simp: numpy_val_def)

lemma py_truediv_numpy: "numpy_val a \<Longrightarrow> py_truediv a b = Inr v \<Longrightarrow> numpy_val v"
  using binop_numpy [of a b fdiv v] by (simp add: py_truediv_is_binop)

lemma getitem_errors: "getitem xs i = Inl e \<Longrightarrow> e = IndexError"
  by (auto simp: getitem_def split: if_splits)

lemma ufunc_numpy: "numpy_val (ufunc f v)"
  by (cases v) (simp_all add: numpy_val_def)

lemma airmass_ratio_numpy:
  assumes "airmass_ratio L am aoi alt = Inr R"
  shows "numpy_val R"
proof -
  from assms obtain am90 where
    a: "get_absolute_airmass L (get_relative_airmass L aoi) (alt2pres L alt) = Inr am90"
    and r: "py_truediv am90 am = Inr R"
    by (auto simp: airmass_ratio_def Let_def ebind_def split: sum.splits)
  from a have "numpy_val am90"
    unfolding get_absolute_airmass_def get_relative_airmass_def
    using binop_numpy ufunc_numpy by blast
  from this r show ?thesis by (rule py_truediv_numpy)
qed

lemma airmass_ratio_errors:
  assumes "airmass_ratio L am aoi alt = Inl e"
  shows "e = ValueError ''operands could not be broadcast together''"
proof (cases "get_absolute_airmass L (get_relative_airmass L aoi) (alt2pres L alt)")
  case (Inl e')
  with assms have "e = e'" by (simp add: airmass_ratio_def Let_def)
  with Inl show ?thesis by (auto simp: get_absolute_airmass_def dest: binop_errors)
next
  case (Inr am90)
  then have "numpy_val am90"
    unfolding get_absolute_airmass_def get_relative_airmass_def
    using binop_numpy ufunc_numpy by blast
  moreover from assms Inr have "py_truediv am90 am = Inl e"
    by (simp add: airmass_ratio_def Let_def)
  ultimately show ?thesis by (auto simp: py_truediv_is_binop dest: binop_errors)
qed

lemma smm_errors:
  assumes "numpy_val R" and "smm cs R aod pw = Inl e"
  shows "e = IndexError \<or> e = ZeroDivisionError \<or>
         e = ValueError ''operands could not be broadcast together''"
  using assms(2) unfolding smm_def py_pow_is_binop [OF assms(1)]
  by (auto simp: ebind_def py_add_def py_mul_def split: sum.splits
        dest: getitem_errors binop_errors py_truediv_errors)


lemma py_pow_two_errors:
  "py_pow r (pyf 2) = Inl e \<Longrightarrow> e = ValueError ''operands could not be broadcast together''"
proof (cases r)
  case (Scalar k x)
  then show "py_pow r (pyf 2) = Inl e \<Longrightarrow> ?thesis"
    by (cases k; cases x) (auto simp: pyf_def split: if_splits)
next
  case (Arr xs)
  then show "py_pow r (pyf 2) = Inl e \<Longrightarrow> ?thesis"
    by (auto simp: pyf_def)
qed

lemma truediv_reference_errors:
  assumes "py_truediv albedo (pyf r) = Inl e" and "r \<noteq> 0"
  shows "e = ValueError ''operands could not be broadcast together''"
proof (cases albedo)
  case (Scalar k x)
  with assms show ?thesis by (cases k) (auto simp: pyf_def)
next
  case (Arr xs)
  with assms show ?thesis by (auto simp: pyf_def)
qed

lemma albedo_correction_errors:
  assumes "albedo_correction B albedo = Inl e"
  shows "e = IndexError \<or> e = ValueError ''operands could not be broadcast together''"
  using assms unfolding albedo_correction_def
  by (auto simp: ebind_def py_add_def py_mul_def split: sum.splits
        dest: getitem_errors binop_errors py_pow_two_errors truediv_reference_errors)

lemma ebind_InlE:
  assumes "ebind m f = Inl e"
  obtains "m = Inl e" | x where "m = Inr x" and "f x = Inl e"
  using assms by (cases m) simp_all

lemma dict_getitem_errors: "dict_getitem d k = Inl e \<Longrightarrow> e = KeyError k"
  by (auto simp: dict_getitem_def split: option.splits)

text \<open>
  The errors a call can raise are the two of the argument checks, numpy's broadcasting error,
  \<open>KeyError\<close> on the module type, \<open>IndexError\<close> and \<open>ZeroDivisionError\<close>. In particular
  \<open>TypeError\<close> and \<open>ComplexResult\<close>, which the model has for Python's indexing of \<open>None\<close>
  and for a Python power that leaves the reals, never come out of the function: the
  coefficients are indexed only when they are not \<open>None\<close>, the base \<open>Ram\<close> of the power is a
  numpy value and the other power has the exponent 2.
\<close>

theorem raised_errors:
  assumes "spectral_factor_polo L pw am aod aoi alt module_type coefficients albedo = Inl e"
  shows "e = ValueError ''Must provide either `module_type` or `coefficients`'' \<or>
         e = ValueError ''Only one of `module_type` and `coefficients` should be provided'' \<or>
         e = ValueError ''operands could not be broadcast together'' \<or>
         (\<exists>t. module_type = Some t \<and> e = KeyError t) \<or>
         e = IndexError \<or> e = ZeroDivisionError"
proof (cases module_type)
  case None
  show ?thesis
  proof (cases coefficients)
    case None
    with \<open>module_type = None\<close> assms show ?thesis by (simp add: spectral_factor_polo_def)
  next
    case (Some cs)
    with \<open>module_type = None\<close> assms
    have "ebind (airmass_ratio L am aoi alt) (\<lambda>Ram. smm cs Ram aod pw) = Inl e"
      by (simp add: coefficients_path)
    then show ?thesis
    proof (cases rule: ebind_InlE)
      case 1
      then show ?thesis by (auto dest: airmass_ratio_errors)
    next
      case (2 R)
      from smm_errors [OF airmass_ratio_numpy [OF 2(1)] 2(2)] show ?thesis by blast
    qed
  qed
next
  case (Some t)
  show ?thesis
  proof (cases coefficients)
    case (Some cs)
    with \<open>module_type = Some t\<close> assms show ?thesis by (simp add: spectral_factor_polo_def)
  next
    case None
    with \<open>module_type = Some t\<close> assms
    have "ebind (airmass_ratio L am aoi alt) (\<lambda>Ram.
     ebind (dict_getitem coefficients_table t) (\<lambda>coeff.
     ebind (dict_getitem c_table t) (\<lambda>c_albedo.
     ebind (smm coeff Ram aod pw) (\<lambda>s.
     ebind (albedo_correction c_albedo albedo) (\<lambda>g.
     py_mul g s))))) = Inl e"
      by (simp add: module_path)
    then show ?thesis
    proof (cases rule: ebind_InlE)
      case 1
      then show ?thesis by (auto dest: airmass_ratio_errors)
    next
      case (2 R)
      note R = airmass_ratio_numpy [OF 2(1)]
      from 2(2) show ?thesis
      proof (cases rule: ebind_InlE)
        case 1
        with \<open>module_type = Some t\<close> show ?thesis by (auto dest: dict_getitem_errors)
      next
        case (2 coeff)
        from 2(2) show ?thesis
        proof (cases rule: ebind_InlE)
          case 1
          with \<open>module_type = Some t\<close> show ?thesis by (auto dest: dict_getitem_errors)
        next
          case (2 c_albedo)
          from 2(2) show ?thesis
          proof (cases rule: ebind_InlE)
            case 1
            from smm_errors [OF R 1] show ?thesis by blast
          next
            case (2 s)
            from 2(2) show ?thesis
            proof (cases rule: ebind_InlE)
              case 1
              from albedo_correction_errors [OF 1] show ?thesis by blast
            next
              case (2 g)
              then show ?thesis by (auto simp: py_mul_def dest: binop_errors)
            qed
          qed
        qed
      qed
    qed
  qed
qed

end
